theory Spec2Isabelle
  imports Main
begin

section \<open>Data model\<close>

text \<open>
  The errors the route handlers throw (\<open>@server/errors\<close>), the rejection of an awaited
  collaborator (\<open>InternalError\<close>) and the plain JavaScript \<open>Error\<close> of the client.
  A handler that throws returns \<open>Inl\<close> of the error.
\<close>

datatype error =
    ValidationError string
  | AuthorizationError
  | InvalidRequestError string
  | NotFoundError
  | InternalError string
  | JsError string

text \<open>
  Modelled from the spec: the enum \<open>AttachmentPreset\<close> is declared in \<open>@shared/types\<close>,
  which is not part of the sources at hand. The handlers name \<open>Avatar\<close> and
  \<open>DocumentAttachment\<close>; every other preset is a team-asset preset.
\<close>

datatype AttachmentPreset = Avatar | DocumentAttachment | OtherPreset string

text \<open>Modelled from the spec: the access tier is one of private and public.\<close>

datatype Acl = Private | Public

text \<open>
  A row of the attachments table. \<open>id'\<close> and \<open>size'\<close> are the columns \<open>id\<close> and
  \<open>size\<close>; times are integers (milliseconds).
\<close>

record Attachment =
  id' :: string
  key :: string
  acl :: Acl
  size' :: int
  expiresAt :: "int option"
  contentType :: string
  documentId :: "string option"
  teamId :: string
  userId :: string
  createdAt :: int
  lastAccessedAt :: "int option"

text \<open>
  Modelled from the spec: the \<open>Document\<close> model is not part of the sources at hand. The
  handlers only pass a document, or \<open>null\<close>, to the policy engine.
\<close>

record Document =
  doc_id :: string
  doc_teamId :: string

text \<open>The authenticated caller, \<open>ctx.state.auth.user\<close>.\<close>

record User =
  user_id :: string
  user_teamId :: string
  user_isAdmin :: bool

datatype action = Read | Update | CreateAttachment | Delete

datatype target =
    DocumentTarget "Document option"
  | TeamTarget string
  | AttachmentTarget Attachment

text \<open>A JSON value of a response body, and a JavaScript object as a map from its keys.\<close>

datatype jsvalue = JStr string | JNum int | JNull

type_synonym jsobject = "string \<rightharpoonup> jsvalue"

text \<open>
  The collaborators the handlers import and the sources do not contain: the policy engine
  (\<open>authorize\<close>), \<open>Document.findByPk\<close>, \<open>AttachmentHelper\<close>, \<open>AttachmentValidation\<close>,
  the presenters, the getters of the \<open>Attachment\<close> model that build URLs, the file
  storage and \<open>BaseStorage.defaultSignedUrlExpires\<close>. They are parameters of the model.
\<close>

record env =
  can :: "User \<Rightarrow> action \<Rightarrow> target \<Rightarrow> bool"
  findDocument :: "string \<Rightarrow> string \<Rightarrow> Document option"
  avatarContentTypes :: "string list"
  assertInMessage :: string
  presetToMaxUploadSize :: "AttachmentPreset \<Rightarrow> int"
  presetToAcl :: "AttachmentPreset \<Rightarrow> Acl"
  presetToExpiry :: "AttachmentPreset \<Rightarrow> int option"
  getKey :: "Acl \<Rightarrow> string \<Rightarrow> string \<Rightarrow> string \<Rightarrow> string"
  bytesToHumanReadable :: "int \<Rightarrow> string"
  getFileNameFromUrl :: "string \<Rightarrow> string option"
  presentAttachment :: "Attachment \<Rightarrow> jsobject"
  presentPolicies :: "User \<Rightarrow> Attachment list \<Rightarrow> jsvalue list"
  redirectUrl :: "Attachment \<Rightarrow> string"
  url :: "Attachment \<Rightarrow> string"
  canonicalUrl :: "Attachment \<Rightarrow> string"
  signedUrl :: "Attachment \<Rightarrow> error + string"
  getUploadUrl :: string
  getPresignedPost :: "string \<Rightarrow> Acl \<Rightarrow> int \<Rightarrow> string \<Rightarrow> error + jsobject"
  defaultSignedUrlExpires :: nat

text \<open>
  What one request draws from outside the program: the identifier \<open>uuidv4()\<close> returns,
  the clock (\<open>new Date()\<close>), whether each awaited write or scheduling call is rejected
  (\<open>None\<close>: it succeeds), and the outcome the Remote-Fetch Job reports.
\<close>

datatype JobOutcome = JobError string | JobDone int string

record io =
  uuidv4 :: string
  now :: int
  createFault :: "error option"
  updateFault :: "error option"
  scheduleFault :: "error option"
  jobOutcome :: JobOutcome

text \<open>
  The state outside a request: the committed rows of the attachments table, the change
  notifications emitted so far, and the queue of scheduled Remote-Fetch Jobs
  (\<open>attachmentId\<close>, \<open>url\<close>).
\<close>

record world =
  attachments :: "Attachment list"
  events :: "string list"
  jobs :: "(string \<times> string) list"

section \<open>Collaborators modelled from the spec\<close>

text \<open>A JavaScript value used as a condition: \<open>undefined\<close> and the empty string are falsy.\<close>

definition truthy :: "string option \<Rightarrow> bool" where
  "truthy s = (case s of None \<Rightarrow> False | Some v \<Rightarrow> v \<noteq> [])"

text \<open>\<open>authorize(user, action, target)\<close> throws \<open>AuthorizationError\<close> unless the policy allows.\<close>

definition authorize :: "env \<Rightarrow> User \<Rightarrow> action \<Rightarrow> target \<Rightarrow> error + unit" where
  "authorize e user a t = (if can e user a t then Inr () else Inl AuthorizationError)"

text \<open>\<open>assertIn(value, options)\<close> of \<open>@server/validation\<close>.\<close>

definition assertIn :: "env \<Rightarrow> string \<Rightarrow> string list \<Rightarrow> error + unit" where
  "assertIn e v options =
     (if v \<in> set options then Inr () else Inl (ValidationError (assertInMessage e)))"

text \<open>Modelled from the spec: \<open>isPrivate\<close> is derived from the access tier.\<close>

definition isPrivate :: "Attachment \<Rightarrow> bool" where
  "isPrivate a = (acl a = Private)"

text \<open>
  Modelled from the spec: \<open>Attachment.findByPk(id, {rejectOnEmpty: true})\<close> of the ORM,
  which is not part of the sources at hand. It returns the row with that primary key and
  rejects when there is none.
\<close>

definition Attachment_findByPk :: "world \<Rightarrow> string option \<Rightarrow> error + Attachment" where
  "Attachment_findByPk w i =
     (case i of
        None \<Rightarrow> Inl NotFoundError
      | Some k \<Rightarrow>
          (case find (\<lambda>a. id' a = k) (attachments w) of
             None \<Rightarrow> Inl NotFoundError
           | Some a \<Rightarrow> Inr a))"

text \<open>
  Modelled from the spec: \<open>Attachment.createWithCtx\<close> of the ORM. The write is rejected
  on a fault of the database or when the primary key is taken; otherwise the row is
  inserted and the creation is notified.
\<close>

definition Attachment_createWithCtx ::
  "error option \<Rightarrow> Attachment \<Rightarrow> world \<Rightarrow> error + (Attachment \<times> world)" where
  "Attachment_createWithCtx fault a w =
     (case fault of
        Some e \<Rightarrow> Inl e
      | None \<Rightarrow>
          if id' a \<in> set (map id' (attachments w))
          then Inl (InternalError ''unique constraint'')
          else Inr (a, w\<lparr>attachments := attachments w @ [a],
                         events := events w @ [''attachments.create'']\<rparr>))"

text \<open>
  Modelled from the spec: \<open>attachment.update({lastAccessedAt}, {silent})\<close> of the ORM. The
  write is rejected on a fault of the database; otherwise the row is rewritten, and a
  change notification is emitted unless the update is silent.
\<close>

definition Attachment_update ::
  "error option \<Rightarrow> bool \<Rightarrow> Attachment \<Rightarrow> int \<Rightarrow> world \<Rightarrow> error + (Attachment \<times> world)" where
  "Attachment_update fault silent a t w =
     (case fault of
        Some e \<Rightarrow> Inl e
      | None \<Rightarrow>
          Inr (a\<lparr>lastAccessedAt := Some t\<rparr>,
               w\<lparr>attachments :=
                    map (\<lambda>b. if id' b = id' a then b\<lparr>lastAccessedAt := Some t\<rparr> else b)
                      (attachments w),
                  events := (if silent then events w else events w @ [''attachments.update''])\<rparr>))"

text \<open>Modelled from the spec: \<open>attachment.reload()\<close> reads the row again.\<close>

definition Attachment_reload :: "Attachment \<Rightarrow> world \<Rightarrow> error + Attachment" where
  "Attachment_reload a w =
     (case find (\<lambda>b. id' b = id' a) (attachments w) of
        None \<Rightarrow> Inl (InternalError ''instance could not be reloaded'')
      | Some b \<Rightarrow> Inr b)"

text \<open>
  Modelled from the spec: the \<open>transaction()\<close> middleware. A handler that throws leaves
  no write behind: its rows and notifications are rolled back.
\<close>

definition transaction ::
  "(world \<Rightarrow> (error + 'a) \<times> world) \<Rightarrow> world \<Rightarrow> (error + 'a) \<times> world" where
  "transaction h w =
     (case h w of
        (Inl e, w') \<Rightarrow> (Inl e, w'\<lparr>attachments := attachments w, events := events w\<rparr>)
      | (Inr r, w') \<Rightarrow> (Inr r, w'))"

text \<open>
  Modelled from the spec: \<open>new UploadAttachmentFromUrlTask().schedule(...)\<close> puts the job
  on the queue, and \<open>job.finished()\<close> waits for the Remote-Fetch Job. The job either
  reports an error and leaves the row as it is, or writes the real size and content type
  into the row.
\<close>

definition Task_schedule ::
  "error option \<Rightarrow> string \<times> string \<Rightarrow> world \<Rightarrow> error + ((string \<times> string) \<times> world)" where
  "Task_schedule fault j w =
     (case fault of
        Some e \<Rightarrow> Inl e
      | None \<Rightarrow> Inr (j, w\<lparr>jobs := jobs w @ [j]\<rparr>))"

definition job_finished :: "JobOutcome \<Rightarrow> string \<times> string \<Rightarrow> world \<Rightarrow> JobOutcome \<times> world" where
  "job_finished out j w =
     (case out of
        JobError m \<Rightarrow> (JobError m, w)
      | JobDone n ct \<Rightarrow>
          (JobDone n ct,
           w\<lparr>attachments :=
                map (\<lambda>b. if id' b = fst j then b\<lparr>size' := n, contentType := ct\<rparr> else b)
                  (attachments w)\<rparr>))"

text \<open>A number in a template literal: the decimal digits of a natural number.\<close>

fun string_of_nat :: "nat \<Rightarrow> string" where
  "string_of_nat n =
     (if n < 10 then [char_of (48 + n)]
      else string_of_nat (n div 10) @ [char_of (48 + n mod 10)])"

declare string_of_nat.simps [simp del]

text \<open>
  Reading a decimal numeral back: the text must be one or more of the digits \<open>0\<close> to
  \<open>9\<close>, with no leading zero unless it is \<open>0\<close> itself; anything else is not a numeral.
\<close>

definition is_digit :: "char \<Rightarrow> bool" where
  "is_digit c = ((48::nat) \<le> of_char c \<and> of_char c \<le> (57::nat))"

fun digits_value :: "nat \<Rightarrow> string \<Rightarrow> nat option" where
  "digits_value acc [] = Some acc"
| "digits_value acc (c # cs) =
     (if is_digit c then digits_value (10 * acc + (of_char c - 48)) cs else None)"

definition nat_of_digits :: "string \<Rightarrow> nat option" where
  "nat_of_digits s =
     (if s = [] \<or> (length s > 1 \<and> hd s = CHR ''0'') then None else digits_value 0 s)"

text \<open>
  Each handler below is the function the router registers. The middlewares that run before
  it (rate limiter, authentication, validation of the request against its schema,
  pagination) have already produced \<open>ctx.input\<close> and \<open>ctx.state\<close>; the logging calls
  of the source have no part in the result and are left out.
\<close>

section \<open>attachments.redirect\<close>

record AttachmentsRedirectReq =
  body_id :: "string option"
  query_id :: "string option"

text \<open>What \<open>ctx.set\<close> and \<open>ctx.redirect\<close> leave in the response.\<close>

record RedirectResponse =
  status :: nat
  cacheControl :: string
  location :: string

text \<open>\<open>a ?? b\<close>\<close>

definition nullish :: "'a option \<Rightarrow> 'a option \<Rightarrow> 'a option" where
  "nullish a b = (case a of None \<Rightarrow> b | Some v \<Rightarrow> Some v)"

definition handleAttachmentsRedirect ::
  "env \<Rightarrow> io \<Rightarrow> User \<Rightarrow> AttachmentsRedirectReq \<Rightarrow> world \<Rightarrow> (error + RedirectResponse) \<times> world" where
  "handleAttachmentsRedirect e i user req w =
     (case Attachment_findByPk w (nullish (body_id req) (query_id req)) of
        Inl err \<Rightarrow> (Inl err, w)
      | Inr attachment \<Rightarrow>
          if isPrivate attachment \<and> teamId attachment \<noteq> user_teamId user
          then (Inl AuthorizationError, w)
          else
            (case Attachment_update (updateFault i) True attachment (now i) w of
               Inl err \<Rightarrow> (Inl err, w)
             | Inr (attachment', w') \<Rightarrow>
                 if isPrivate attachment'
                 then
                   (case signedUrl e attachment' of
                      Inl err \<Rightarrow> (Inl err, w')
                    | Inr u \<Rightarrow>
                        (Inr \<lparr>status = 302,
                              cacheControl =
                                ''max-age='' @ string_of_nat (defaultSignedUrlExpires e)
                                  @ '', immutable'',
                              location = u\<rparr>, w'))
                 else
                   (Inr \<lparr>status = 302,
                         cacheControl = ''max-age=604800, immutable'',
                         location = canonicalUrl e attachment'\<rparr>, w')))"

section \<open>attachments.list\<close>

record AttachmentsListReq =
  list_documentId :: "string option"
  list_userId :: "string option"

record Pagination =
  offset :: nat
  limit :: nat

text \<open>The \<open>where\<close> clause the handler builds.\<close>

record WhereOptions =
  where_teamId :: string
  where_userId :: string
  where_documentId :: "string option"

record ListResponse =
  list_pagination :: Pagination
  list_total :: nat
  list_data :: "jsobject list"
  list_policies :: "jsvalue list"

definition list_where :: "env \<Rightarrow> User \<Rightarrow> AttachmentsListReq \<Rightarrow> error + WhereOptions" where
  "list_where e user req =
     (let wh = \<lparr>where_teamId = user_teamId user,
                where_userId =
                  (if truthy (list_userId req) \<and> user_isAdmin user
                   then the (list_userId req) else user_id user),
                where_documentId = None\<rparr>
      in if truthy (list_documentId req)
         then
           (case authorize e user Read
                   (DocumentTarget (findDocument e (the (list_documentId req)) (user_id user))) of
              Inl err \<Rightarrow> Inl err
            | Inr _ \<Rightarrow> Inr (wh\<lparr>where_documentId := list_documentId req\<rparr>))
         else Inr wh)"

text \<open>Modelled from the spec: how the ORM reads a \<open>where\<close> clause.\<close>

definition matches :: "WhereOptions \<Rightarrow> Attachment \<Rightarrow> bool" where
  "matches wh a =
     (teamId a = where_teamId wh \<and> userId a = where_userId wh \<and>
      (case where_documentId wh of None \<Rightarrow> True | Some d \<Rightarrow> documentId a = Some d))"

text \<open>
  Modelled from the spec: \<open>Attachment.findAll\<close> with \<open>where\<close>, \<open>order createdAt DESC\<close>,
  \<open>offset\<close> and \<open>limit\<close>, and \<open>Attachment.count\<close>.
\<close>

definition Attachment_findAll :: "world \<Rightarrow> WhereOptions \<Rightarrow> nat \<Rightarrow> nat \<Rightarrow> Attachment list" where
  "Attachment_findAll w wh off lim =
     take lim (drop off (rev (sort_key createdAt (filter (matches wh) (attachments w)))))"

definition Attachment_count :: "world \<Rightarrow> WhereOptions \<Rightarrow> nat" where
  "Attachment_count w wh = length (filter (matches wh) (attachments w))"

text \<open>The rows the handler selects, before they are presented.\<close>

definition attachments_list_rows ::
  "env \<Rightarrow> User \<Rightarrow> Pagination \<Rightarrow> AttachmentsListReq \<Rightarrow> world \<Rightarrow> error + Attachment list" where
  "attachments_list_rows e user pg req w =
     (case list_where e user req of
        Inl err \<Rightarrow> Inl err
      | Inr wh \<Rightarrow> Inr (Attachment_findAll w wh (offset pg) (limit pg)))"

definition attachments_list ::
  "env \<Rightarrow> User \<Rightarrow> Pagination \<Rightarrow> AttachmentsListReq \<Rightarrow> world \<Rightarrow> error + ListResponse" where
  "attachments_list e user pg req w =
     (case list_where e user req of
        Inl err \<Rightarrow> Inl err
      | Inr wh \<Rightarrow>
          (let rows = Attachment_findAll w wh (offset pg) (limit pg);
               total = Attachment_count w wh
           in Inr \<lparr>list_pagination = pg,
                   list_total = total,
                   list_data = map (presentAttachment e) rows,
                   list_policies = presentPolicies e user rows\<rparr>))"

section \<open>attachments.create\<close>

record AttachmentCreateReq =
  create_name :: string
  create_documentId :: "string option"
  create_contentType :: string
  create_size :: int
  create_preset :: AttachmentPreset

record CreateResponse =
  uploadUrl :: string
  form :: jsobject
  attachment :: jsobject

text \<open>
  The message of the size check up to the limit. The dash of the source is U+2013, three
  bytes in UTF-8.
\<close>

definition tooLargeMessage :: string where
  "tooLargeMessage =
     ''Sorry, this file is too large '' @ [CHR 0xE2, CHR 0x80, CHR 0x93]
       @ '' the maximum size is ''"

text \<open>The authorization of the direct path, one branch per preset.\<close>

definition create_authorize :: "env \<Rightarrow> User \<Rightarrow> AttachmentCreateReq \<Rightarrow> error + unit" where
  "create_authorize e user req =
     (if create_preset req = Avatar
      then assertIn e (create_contentType req) (avatarContentTypes e)
      else if create_preset req = DocumentAttachment \<and> truthy (create_documentId req)
      then authorize e user Update
             (DocumentTarget (findDocument e (the (create_documentId req)) (user_id user)))
      else authorize e user CreateAttachment (TeamTarget (user_teamId user)))"

text \<open>The handler, inside the transaction that the middleware opens.\<close>

definition attachments_create_handler ::
  "env \<Rightarrow> io \<Rightarrow> User \<Rightarrow> AttachmentCreateReq \<Rightarrow> world \<Rightarrow> (error + CreateResponse) \<times> world" where
  "attachments_create_handler e i user req w =
     (case create_authorize e user req of
        Inl err \<Rightarrow> (Inl err, w)
      | Inr _ \<Rightarrow>
          (let maxUploadSize = presetToMaxUploadSize e (create_preset req)
           in if create_size req > maxUploadSize
              then (Inl (ValidationError
                          (tooLargeMessage @ bytesToHumanReadable e maxUploadSize)), w)
              else
                (let modelId = uuidv4 i;
                     acl' = presetToAcl e (create_preset req);
                     key' = getKey e acl' modelId (create_name req) (user_id user)
                 in case Attachment_createWithCtx (createFault i)
                           \<lparr>id' = modelId, key = key', acl = acl',
                            size' = create_size req,
                            expiresAt = presetToExpiry e (create_preset req),
                            contentType = create_contentType req,
                            documentId = create_documentId req,
                            teamId = user_teamId user,
                            userId = user_id user,
                            createdAt = now i,
                            lastAccessedAt = None\<rparr> w of
                      Inl err \<Rightarrow> (Inl err, w)
                    | Inr (att, w') \<Rightarrow>
                        (case getPresignedPost e key' acl' maxUploadSize
                                (create_contentType req) of
                           Inl err \<Rightarrow> (Inl err, w')
                         | Inr postFields \<Rightarrow>
                             (Inr \<lparr>uploadUrl = getUploadUrl e,
                                   form =
                                     [''Cache-Control'' \<mapsto> JStr ''max-age=31557600'',
                                      ''Content-Type'' \<mapsto> JStr (create_contentType req)]
                                       ++ postFields,
                                   attachment =
                                     (presentAttachment e att)
                                       (''url'' \<mapsto>
                                          JStr (if create_preset req = DocumentAttachment
                                                then redirectUrl e att else url e att))\<rparr>,
                              w')))))"

definition attachments_create ::
  "env \<Rightarrow> io \<Rightarrow> User \<Rightarrow> AttachmentCreateReq \<Rightarrow> world \<Rightarrow> (error + CreateResponse) \<times> world" where
  "attachments_create e i user req = transaction (attachments_create_handler e i user req)"

section \<open>attachments.createFromUrl\<close>

record AttachmentCreateFromUrlReq =
  fromUrl_url :: string
  fromUrl_documentId :: "string option"
  fromUrl_preset :: AttachmentPreset

text \<open>
  The first half of the handler: validation, authorization, and the row written in a
  transaction of its own, committed when \<open>sequelize.transaction\<close> returns.
\<close>

definition createFromUrl_persist ::
  "env \<Rightarrow> io \<Rightarrow> User \<Rightarrow> AttachmentCreateFromUrlReq \<Rightarrow> world \<Rightarrow> error + (Attachment \<times> world)" where
  "createFromUrl_persist e i user req w =
     (if fromUrl_preset req \<noteq> DocumentAttachment \<or> \<not> truthy (fromUrl_documentId req)
      then Inl (ValidationError ''Only document attachments can be created from a URL'')
      else
        (case authorize e user Update
                (DocumentTarget (findDocument e (the (fromUrl_documentId req)) (user_id user))) of
           Inl err \<Rightarrow> Inl err
         | Inr _ \<Rightarrow>
             (let name = (case getFileNameFromUrl e (fromUrl_url req) of
                            None \<Rightarrow> ''file'' | Some n \<Rightarrow> n);
                  modelId = uuidv4 i;
                  acl' = presetToAcl e (fromUrl_preset req);
                  key' = getKey e acl' modelId name (user_id user)
              in Attachment_createWithCtx (createFault i)
                   \<lparr>id' = modelId, key = key', acl = acl',
                    size' = 0,
                    expiresAt = presetToExpiry e (fromUrl_preset req),
                    contentType = ''application/octet-stream'',
                    documentId = fromUrl_documentId req,
                    teamId = user_teamId user,
                    userId = user_id user,
                    createdAt = now i,
                    lastAccessedAt = None\<rparr> w)))"

text \<open>
  The second half: the job is scheduled and awaited, its error outcome is thrown, and the
  row is read again.
\<close>

definition createFromUrl_await ::
  "env \<Rightarrow> io \<Rightarrow> string \<Rightarrow> Attachment \<Rightarrow> world \<Rightarrow> (error + jsobject) \<times> world" where
  "createFromUrl_await e i u att w =
     (case Task_schedule (scheduleFault i) (id' att, u) w of
        Inl err \<Rightarrow> (Inl err, w)
      | Inr (job, w1) \<Rightarrow>
          (case job_finished (jobOutcome i) job w1 of
             (JobError m, w2) \<Rightarrow> (Inl (InvalidRequestError m), w2)
           | (JobDone _ _, w2) \<Rightarrow>
               (case Attachment_reload att w2 of
                  Inl err \<Rightarrow> (Inl err, w2)
                | Inr att' \<Rightarrow> (Inr (presentAttachment e att'), w2))))"

definition attachments_createFromUrl ::
  "env \<Rightarrow> io \<Rightarrow> User \<Rightarrow> AttachmentCreateFromUrlReq \<Rightarrow> world \<Rightarrow> (error + jsobject) \<times> world" where
  "attachments_createFromUrl e i user req w =
     (case createFromUrl_persist e i user req w of
        Inl err \<Rightarrow> (Inl err, w)
      | Inr (att, w') \<Rightarrow> createFromUrl_await e i (fromUrl_url req) att w')"

section \<open>The client: uploadFile\<close>

text \<open>
  The events of the \<open>XMLHttpRequest\<close> in the order they fire. \<open>LoadEnd\<close> carries
  \<open>xhr.readyState\<close> and \<open>xhr.status\<close> as they are when the listener runs.
\<close>

datatype xhr_event =
    UploadProgress bool int int
  | XhrError
  | XhrLoad
  | XhrLoadEnd nat int

text \<open>
  The promise the upload awaits: only the \<open>loadend\<close> listener resolves it, the others
  log. \<open>None\<close>: the promise never resolves.
\<close>

fun upload_promise :: "xhr_event list \<Rightarrow> bool option" where
  "upload_promise [] = None"
| "upload_promise (XhrLoadEnd readyState st # evs) =
     Some (readyState = 4 \<and> st \<ge> 200 \<and> st < 400)"
| "upload_promise (ev # evs) = upload_promise evs"

text \<open>The calls of \<open>options.onProgress\<close>, as \<open>(loaded, total)\<close>, up to the resolution.\<close>

fun upload_progress :: "bool \<Rightarrow> xhr_event list \<Rightarrow> (int \<times> int) list" where
  "upload_progress hasOnProgress [] = []"
| "upload_progress hasOnProgress (UploadProgress lengthComputable loaded tot # evs) =
     (if lengthComputable \<and> hasOnProgress
      then (loaded, tot) # upload_progress hasOnProgress evs
      else upload_progress hasOnProgress evs)"
| "upload_progress hasOnProgress (XhrLoadEnd readyState st # evs) = []"
| "upload_progress hasOnProgress (ev # evs) = upload_progress hasOnProgress evs"

text \<open>
  \<open>uploadFile\<close>: the answer of \<open>client.post("/attachments.create")\<close> (\<open>Inl\<close>: the call
  throws; \<open>Inr None\<close>: no response, the invariant fails), then the transfer.
  The outer \<open>None\<close>: the call never returns.
\<close>

definition uploadFile ::
  "(error + CreateResponse option) \<Rightarrow> xhr_event list \<Rightarrow> (error + jsobject) option" where
  "uploadFile response evs =
     (case response of
        Inl err \<Rightarrow> Some (Inl err)
      | Inr None \<Rightarrow> Some (Inl (JsError ''Response should be available''))
      | Inr (Some data) \<Rightarrow>
          (case upload_promise evs of
             None \<Rightarrow> None
           | Some success \<Rightarrow>
               if \<not> success then Some (Inl (JsError ''Upload failed''))
               else Some (Inr (attachment data))))"

section \<open>Example data\<close>

text \<open>
  One instance of the collaborators: a document is updatable by the members of its team,
  a team asset may be created by the members of the team, every preset allows 1000
  bytes, and signed URLs live for 60 seconds.
\<close>

definition env0 :: env where
  "env0 =
     \<lparr>can = (\<lambda>u a t. case t of
                DocumentTarget None \<Rightarrow> False
              | DocumentTarget (Some d) \<Rightarrow> doc_teamId d = user_teamId u
              | TeamTarget t \<Rightarrow> t = user_teamId u
              | AttachmentTarget x \<Rightarrow> userId x = user_id u),
      findDocument =
        (\<lambda>d u. if d = ''doc1'' then Some \<lparr>doc_id = ''doc1'', doc_teamId = ''team1''\<rparr>
                else None),
      avatarContentTypes = [''image/png'', ''image/jpeg''],
      assertInMessage = ''Must be one of image/png, image/jpeg'',
      presetToMaxUploadSize = (\<lambda>p. 1000),
      presetToAcl = (\<lambda>p. if p = Avatar then Public else Private),
      presetToExpiry = (\<lambda>p. None),
      getKey = (\<lambda>a i n u. ''uploads/'' @ u @ ''/'' @ i @ ''/'' @ n),
      bytesToHumanReadable = (\<lambda>n. string_of_nat (nat n) @ '' Bytes''),
      getFileNameFromUrl = (\<lambda>u. None),
      presentAttachment =
        (\<lambda>a. [''id'' \<mapsto> JStr (id' a), ''url'' \<mapsto> JStr (''/raw/'' @ key a),
              ''size'' \<mapsto> JNum (size' a)]),
      presentPolicies = (\<lambda>u rows. []),
      redirectUrl = (\<lambda>a. ''/api/attachments.redirect?id='' @ id' a),
      url = (\<lambda>a. ''/raw/'' @ key a),
      canonicalUrl = (\<lambda>a. ''https://cdn.example/'' @ key a),
      signedUrl = (\<lambda>a. Inr (''https://s3.example/'' @ key a @ ''?sig'')),
      getUploadUrl = ''https://s3.example/upload'',
      getPresignedPost = (\<lambda>k a m c. Inr [''key'' \<mapsto> JStr k]),
      defaultSignedUrlExpires = 60\<rparr>"

text \<open>The same, except that the policy allows no action on any document.\<close>

definition env_teamOnly :: env where
  "env_teamOnly =
     \<lparr>can = (\<lambda>u a t. case t of
                DocumentTarget d \<Rightarrow> False
              | TeamTarget t \<Rightarrow> a = CreateAttachment \<and> t = user_teamId u
              | AttachmentTarget x \<Rightarrow> False),
      findDocument = (\<lambda>d u. None),
      avatarContentTypes = [''image/png'', ''image/jpeg''],
      assertInMessage = ''Must be one of image/png, image/jpeg'',
      presetToMaxUploadSize = (\<lambda>p. 1000),
      presetToAcl = (\<lambda>p. if p = Avatar then Public else Private),
      presetToExpiry = (\<lambda>p. None),
      getKey = (\<lambda>a i n u. ''uploads/'' @ u @ ''/'' @ i @ ''/'' @ n),
      bytesToHumanReadable = (\<lambda>n. string_of_nat (nat n) @ '' Bytes''),
      getFileNameFromUrl = (\<lambda>u. None),
      presentAttachment =
        (\<lambda>a. [''id'' \<mapsto> JStr (id' a), ''url'' \<mapsto> JStr (''/raw/'' @ key a),
              ''size'' \<mapsto> JNum (size' a)]),
      presentPolicies = (\<lambda>u rows. []),
      redirectUrl = (\<lambda>a. ''/api/attachments.redirect?id='' @ id' a),
      url = (\<lambda>a. ''/raw/'' @ key a),
      canonicalUrl = (\<lambda>a. ''https://cdn.example/'' @ key a),
      signedUrl = (\<lambda>a. Inr (''https://s3.example/'' @ key a @ ''?sig'')),
      getUploadUrl = ''https://s3.example/upload'',
      getPresignedPost = (\<lambda>k a m c. Inr [''key'' \<mapsto> JStr k]),
      defaultSignedUrlExpires = 60\<rparr>"

definition io0 :: io where
  "io0 = \<lparr>uuidv4 = ''new1'', now = 5000, createFault = None, updateFault = None,
          scheduleFault = None, jobOutcome = JobDone 42 ''image/png''\<rparr>"

definition io_writeFails :: io where
  "io_writeFails =
     \<lparr>uuidv4 = ''new1'', now = 5000, createFault = None,
      updateFault = Some (InternalError ''database unavailable''),
      scheduleFault = None, jobOutcome = JobDone 42 ''image/png''\<rparr>"

definition io_jobFails :: io where
  "io_jobFails =
     \<lparr>uuidv4 = ''new1'', now = 5000, createFault = None, updateFault = None,
      scheduleFault = None, jobOutcome = JobError ''Response too large''\<rparr>"

definition alice :: User where
  "alice = \<lparr>user_id = ''alice'', user_teamId = ''team1'', user_isAdmin = False\<rparr>"

definition bob :: User where
  "bob = \<lparr>user_id = ''bob'', user_teamId = ''team1'', user_isAdmin = False\<rparr>"

definition mallory :: User where
  "mallory = \<lparr>user_id = ''mallory'', user_teamId = ''team2'', user_isAdmin = False\<rparr>"

definition att1 :: Attachment where
  "att1 = \<lparr>id' = ''a1'', key = ''uploads/alice/a1/cat.png'', acl = Private, size' = 10,
           expiresAt = None, contentType = ''image/png'', documentId = Some ''doc1'',
           teamId = ''team1'', userId = ''alice'', createdAt = 100, lastAccessedAt = None\<rparr>"

definition att1_read :: Attachment where
  "att1_read =
     \<lparr>id' = ''a1'', key = ''uploads/alice/a1/cat.png'', acl = Private, size' = 10,
      expiresAt = None, contentType = ''image/png'', documentId = Some ''doc1'',
      teamId = ''team1'', userId = ''alice'', createdAt = 100, lastAccessedAt = Some 5000\<rparr>"

definition att2 :: Attachment where
  "att2 = \<lparr>id' = ''a2'', key = ''uploads/bob/a2/dog.png'', acl = Private, size' = 20,
           expiresAt = None, contentType = ''image/png'', documentId = None,
           teamId = ''team1'', userId = ''bob'', createdAt = 200, lastAccessedAt = None\<rparr>"

definition att_new :: Attachment where
  "att_new =
     \<lparr>id' = ''new1'', key = ''uploads/alice/new1/file'', acl = Private, size' = 0,
      expiresAt = None, contentType = ''application/octet-stream'',
      documentId = Some ''doc1'', teamId = ''team1'', userId = ''alice'',
      createdAt = 5000, lastAccessedAt = None\<rparr>"

definition att_doc :: Attachment where
  "att_doc =
     \<lparr>id' = ''new1'', key = ''uploads/alice/new1/x.png'', acl = Private, size' = 500,
      expiresAt = None, contentType = ''image/png'',
      documentId = Some ''doc1'', teamId = ''team1'', userId = ''alice'',
      createdAt = 5000, lastAccessedAt = None\<rparr>"

definition att_nodoc :: Attachment where
  "att_nodoc =
     \<lparr>id' = ''new1'', key = ''uploads/alice/new1/x.png'', acl = Private, size' = 500,
      expiresAt = None, contentType = ''image/png'',
      documentId = None, teamId = ''team1'', userId = ''alice'',
      createdAt = 5000, lastAccessedAt = None\<rparr>"

definition world0 :: world where
  "world0 = \<lparr>attachments = [att1, att2], events = [], jobs = []\<rparr>"

definition world1 :: world where
  "world1 =
     \<lparr>attachments = [att1, att2, att_new], events = [''attachments.create''], jobs = []\<rparr>"

definition world_doc :: world where
  "world_doc =
     \<lparr>attachments = [att1, att2, att_doc], events = [''attachments.create''], jobs = []\<rparr>"

definition req_a1 :: AttachmentsRedirectReq where
  "req_a1 = \<lparr>body_id = Some ''a1'', query_id = None\<rparr>"

definition req_a1_query :: AttachmentsRedirectReq where
  "req_a1_query = \<lparr>body_id = None, query_id = Some ''a1''\<rparr>"

definition req_list :: AttachmentsListReq where
  "req_list = \<lparr>list_documentId = None, list_userId = Some ''alice''\<rparr>"

definition page0 :: Pagination where
  "page0 = \<lparr>offset = 0, limit = 25\<rparr>"

definition req_big :: AttachmentCreateReq where
  "req_big =
     \<lparr>create_name = ''x.png'', create_documentId = Some ''doc1'',
      create_contentType = ''image/png'', create_size = 2000,
      create_preset = DocumentAttachment\<rparr>"

definition req_doc :: AttachmentCreateReq where
  "req_doc =
     \<lparr>create_name = ''x.png'', create_documentId = Some ''doc1'',
      create_contentType = ''image/png'', create_size = 500,
      create_preset = DocumentAttachment\<rparr>"

definition req_nodoc :: AttachmentCreateReq where
  "req_nodoc =
     \<lparr>create_name = ''x.png'', create_documentId = None,
      create_contentType = ''image/png'', create_size = 500,
      create_preset = DocumentAttachment\<rparr>"

definition resp_doc :: CreateResponse where
  "resp_doc =
     \<lparr>uploadUrl = ''https://s3.example/upload'',
      form = [''Cache-Control'' \<mapsto> JStr ''max-age=31557600'',
              ''Content-Type'' \<mapsto> JStr ''image/png'']
               ++ [''key'' \<mapsto> JStr ''uploads/alice/new1/x.png''],
      attachment =
        [''id'' \<mapsto> JStr ''new1'', ''url'' \<mapsto> JStr ''/raw/uploads/alice/new1/x.png'',
         ''size'' \<mapsto> JNum 500]
          (''url'' \<mapsto> JStr ''/api/attachments.redirect?id=new1'')\<rparr>"

definition req_url :: AttachmentCreateFromUrlReq where
  "req_url =
     \<lparr>fromUrl_url = ''http://x/y.png'', fromUrl_documentId = Some ''doc1'',
      fromUrl_preset = DocumentAttachment\<rparr>"

definition req_url_avatar :: AttachmentCreateFromUrlReq where
  "req_url_avatar =
     \<lparr>fromUrl_url = ''http://x/y.png'', fromUrl_documentId = Some ''doc1'',
      fromUrl_preset = Avatar\<rparr>"

definition data0 :: CreateResponse where
  "data0 =
     \<lparr>uploadUrl = ''https://s3.example/upload'', form = Map.empty,
      attachment = [''id'' \<mapsto> JStr ''new1'']\<rparr>"

lemmas fixtures = env0_def env_teamOnly_def io0_def io_writeFails_def io_jobFails_def
  alice_def bob_def mallory_def att1_def att1_read_def att2_def att_new_def att_doc_def
  att_nodoc_def world0_def world1_def world_doc_def req_a1_def req_a1_query_def
  req_list_def page0_def
  req_big_def req_doc_def req_nodoc_def resp_doc_def req_url_def req_url_avatar_def data0_def

section \<open>Auxiliary facts\<close>

lemma digits_value_snoc:
  "digits_value acc (s @ [c]) =
     (case digits_value acc s of
        None \<Rightarrow> None
      | Some v \<Rightarrow> if is_digit c then Some (10 * v + (of_char c - 48)) else None)"
  by (induction s arbitrary: acc) simp_all

lemma string_of_nat_not_empty: "string_of_nat n \<noteq> []"
  by (subst string_of_nat.simps) simp

lemma digit_char:
  fixes d :: nat
  assumes "d < 10"
  shows "is_digit (char_of (48 + d))" and "of_char (char_of (48 + d)) - 48 = d"
    and "(char_of (48 + d) = CHR ''0'') = (d = 0)"
proof -
  from assms have v: "of_char (char_of (48 + d)) = 48 + d"
    by (simp add: of_char_of)
  from v assms show "is_digit (char_of (48 + d))"
    by (simp add: is_digit_def)
  from v show "of_char (char_of (48 + d)) - 48 = d"
    by simp
  have "(char_of (48 + d) = CHR ''0'') = (of_char (char_of (48 + d)) = (of_char CHR ''0'' :: nat))"
    by (simp only: of_char_eq_iff)
  with v show "(char_of (48 + d) = CHR ''0'') = (d = 0)"
    by simp
qed

lemma digits_value_string_of_nat: "digits_value 0 (string_of_nat n) = Some n"
proof (induction n rule: string_of_nat.induct)
  case (1 n)
  show ?case
  proof (cases "n < 10")
    case True
    then show ?thesis
      by (subst string_of_nat.simps) (simp add: digit_char)
  next
    case False
    have m: "n mod 10 < 10" by simp
    from False 1 show ?thesis
      by (subst string_of_nat.simps) (simp add: digits_value_snoc digit_char [OF m])
  qed
qed

lemma string_of_nat_no_leading_zero:
  "0 < n \<Longrightarrow> hd (string_of_nat n) \<noteq> CHR ''0''"
proof (induction n rule: string_of_nat.induct)
  case (1 n)
  show ?case
  proof (cases "n < 10")
    case True
    with "1.prems" show ?thesis
      by (subst string_of_nat.simps) (simp add: digit_char)
  next
    case False
    then have "0 < n div 10" by simp
    with False 1 have "hd (string_of_nat (n div 10)) \<noteq> CHR ''0''" by simp
    with False show ?thesis
      by (subst string_of_nat.simps) (simp add: string_of_nat_not_empty)
  qed
qed

lemma string_of_nat_zero: "string_of_nat 0 = ''0''"
  by code_simp

lemma nat_of_digits_string_of_nat: "nat_of_digits (string_of_nat n) = Some n"
proof (cases "n = 0")
  case True
  then show ?thesis
    by (simp add: nat_of_digits_def string_of_nat_zero is_digit_def)
next
  case False
  then have "hd (string_of_nat n) \<noteq> CHR ''0''"
    by (simp add: string_of_nat_no_leading_zero)
  then show ?thesis
    by (simp add: nat_of_digits_def string_of_nat_not_empty digits_value_string_of_nat)
qed

lemma redirect_accessible:
  assumes "Attachment_findByPk w (nullish (body_id req) (query_id req)) = Inr a"
    and "\<not> (isPrivate a \<and> teamId a \<noteq> user_teamId user)"
  shows "handleAttachmentsRedirect e i user req w =
     (case Attachment_update (updateFault i) True a (now i) w of
        Inl err \<Rightarrow> (Inl err, w)
      | Inr (a', w') \<Rightarrow>
          if isPrivate a'
          then (case signedUrl e a' of
                  Inl err \<Rightarrow> (Inl err, w')
                | Inr u \<Rightarrow>
                    (Inr \<lparr>status = 302,
                          cacheControl =
                            ''max-age='' @ string_of_nat (defaultSignedUrlExpires e)
                              @ '', immutable'',
                          location = u\<rparr>, w'))
          else (Inr \<lparr>status = 302, cacheControl = ''max-age=604800, immutable'',
                     location = canonicalUrl e a'\<rparr>, w'))"
  using assms by (auto simp: handleAttachmentsRedirect_def)

lemma found_a1:
  "Attachment_findByPk world0 (nullish (body_id req_a1) (query_id req_a1)) = Inr att1"
  by (simp add: Attachment_findByPk_def nullish_def fixtures)

lemma list_where_non_admin:
  assumes "\<not> user_isAdmin user" and "list_where e user req = Inr wh"
  shows "where_userId wh = user_id user \<and> where_teamId wh = user_teamId user"
  using assms by (auto simp: list_where_def Let_def split: if_splits sum.splits)

lemma list_where_ignores_userId:
  assumes "\<not> user_isAdmin user"
  shows "list_where e user req = list_where e user (req\<lparr>list_userId := None\<rparr>)"
  using assms by (auto simp: list_where_def Let_def split: sum.splits)

lemma findAll_matches:
  assumes "a \<in> set (Attachment_findAll w wh off lim)"
  shows "a \<in> set (attachments w) \<and> matches wh a"
proof -
  from assms
  have "a \<in> set (drop off (rev (sort_key createdAt (filter (matches wh) (attachments w)))))"
    unfolding Attachment_findAll_def by (rule in_set_takeD)
  then have "a \<in> set (rev (sort_key createdAt (filter (matches wh) (attachments w))))"
    by (rule in_set_dropD)
  then show ?thesis by simp
qed

lemma createWithCtx_Inr:
  assumes "Attachment_createWithCtx fault a w = Inr (att, w1)"
  shows "att = a \<and> attachments w1 = attachments w @ [a] \<and> jobs w1 = jobs w \<and>
         events w1 = events w @ [''attachments.create''] \<and> fault = None \<and>
         id' a \<notin> set (map id' (attachments w))"
  using assms
  by (auto simp: Attachment_createWithCtx_def split: option.splits if_splits)

lemma persist_Inr:
  assumes "createFromUrl_persist e i user req w = Inr (att, w1)"
  shows "size' att = 0 \<and> contentType att = ''application/octet-stream'' \<and>
         id' att = uuidv4 i \<and> documentId att = fromUrl_documentId req \<and>
         attachments w1 = attachments w @ [att] \<and> jobs w1 = jobs w"
proof -
  from assms obtain a where
    a: "Attachment_createWithCtx (createFault i) a w = Inr (att, w1)"
    and sz: "size' a = 0" and ct: "contentType a = ''application/octet-stream''"
    and ident: "id' a = uuidv4 i" and doc: "documentId a = fromUrl_documentId req"
    by (auto simp: createFromUrl_persist_def Let_def split: if_splits sum.splits)
  from createWithCtx_Inr [OF a] sz ct ident doc show ?thesis by simp
qed

lemma await_jobs:
  assumes "scheduleFault i = None"
  shows "jobs (snd (createFromUrl_await e i u att w1)) = jobs w1 @ [(id' att, u)]"
  using assms
  by (auto simp: createFromUrl_await_def Task_schedule_def job_finished_def
        split: JobOutcome.splits sum.splits)

lemma job_finished_ids:
  "map id' (attachments (snd (job_finished out j w))) = map id' (attachments w)"
  by (cases out) (simp_all add: job_finished_def comp_def if_distrib)

lemma await_ids:
  "map id' (attachments (snd (createFromUrl_await e i u att w1))) = map id' (attachments w1)"
proof (cases "scheduleFault i")
  case None
  let ?w = "w1\<lparr>jobs := jobs w1 @ [(id' att, u)]\<rparr>"
  obtain out w2 where f: "job_finished (jobOutcome i) (id' att, u) ?w = (out, w2)"
    by (cases "job_finished (jobOutcome i) (id' att, u) ?w")
  from job_finished_ids [of "jobOutcome i" "(id' att, u)" ?w] f
  have ids: "map id' (attachments w2) = map id' (attachments w1)" by simp
  show ?thesis
    using f ids None
    by (cases out)
       (auto simp: createFromUrl_await_def Task_schedule_def split: sum.splits)
next
  case (Some err)
  then show ?thesis by (simp add: createFromUrl_await_def Task_schedule_def)
qed

lemma persist_example:
  "createFromUrl_persist env0 io0 alice req_url world0 = Inr (att_new, world1)"
  by (simp add: createFromUrl_persist_def authorize_def truthy_def Let_def
        Attachment_createWithCtx_def fixtures)

lemma persist_example_jobFails:
  "createFromUrl_persist env0 io_jobFails alice req_url world0 = Inr (att_new, world1)"
  by (simp add: createFromUrl_persist_def authorize_def truthy_def Let_def
        Attachment_createWithCtx_def fixtures)

lemma create_handler_Inr:
  assumes "attachments_create_handler e i user req w = (Inr resp, w')"
  shows "\<exists>att. attachments w' = attachments w @ [att] \<and> id' att = uuidv4 i \<and>
           size' att = create_size req \<and> documentId att = create_documentId req \<and>
           attachment resp =
             (presentAttachment e att)
               (''url'' \<mapsto> JStr (if create_preset req = DocumentAttachment
                                   then redirectUrl e att else url e att))"
  using assms
  by (auto simp: attachments_create_handler_def Let_def Attachment_createWithCtx_def
        split: sum.splits if_splits option.splits)

lemma create_Inr:
  "attachments_create e i user req w = (Inr resp, w') \<Longrightarrow>
   attachments_create_handler e i user req w = (Inr resp, w')"
  by (auto simp: attachments_create_def transaction_def split: prod.splits sum.splits)

lemma upload_promise_first_loadend:
  assumes "\<forall>ev \<in> set pre. \<forall>r s. ev \<noteq> XhrLoadEnd r s"
  shows "upload_promise (pre @ XhrLoadEnd r st # post) =
           Some (r = 4 \<and> 200 \<le> st \<and> st < 400)"
  using assms
proof (induction pre)
  case Nil
  then show ?case by simp
next
  case (Cons ev pre)
  then show ?case by (cases ev) auto
qed

section \<open>The claims\<close>

subsection \<open>C1\<close>

text \<open>
  C1, as amended. On an \<open>attachments.redirect\<close> request for an attachment the caller may
  access, the write of \<open>lastAccessedAt\<close> is silent: the handler emits no change
  notification, whatever the outcome. The write is awaited before the response is built.
  If it is rejected, the request fails with the error of the write and nothing is
  changed. If it succeeds, the row carries the new timestamp and the handler goes on to
  the redirect: a public attachment is answered with status 302 to its canonical URL and
  \<open>max-age=604800\<close>; a private one with status 302 to its signed URL and the lifetime of
  signed URLs as \<open>max-age\<close>, or, when the storage refuses to sign, with the error of the
  signing.
\<close>

theorem redirect_timestamp_write:
  assumes "Attachment_findByPk w (nullish (body_id req) (query_id req)) = Inr a"
    and "\<not> (isPrivate a \<and> teamId a \<noteq> user_teamId user)"
  shows "events (snd (handleAttachmentsRedirect e i user req w)) = events w \<and>
         (\<forall>err. updateFault i = Some err \<longrightarrow>
            handleAttachmentsRedirect e i user req w = (Inl err, w)) \<and>
         (updateFault i = None \<longrightarrow>
            attachments (snd (handleAttachmentsRedirect e i user req w)) =
              map (\<lambda>b. if id' b = id' a then b\<lparr>lastAccessedAt := Some (now i)\<rparr> else b)
                (attachments w) \<and>
            fst (handleAttachmentsRedirect e i user req w) =
              (if isPrivate a
               then (case signedUrl e (a\<lparr>lastAccessedAt := Some (now i)\<rparr>) of
                       Inl err \<Rightarrow> Inl err
                     | Inr u \<Rightarrow>
                         Inr \<lparr>status = 302,
                              cacheControl =
                                ''max-age='' @ string_of_nat (defaultSignedUrlExpires e)
                                  @ '', immutable'',
                              location = u\<rparr>)
               else Inr \<lparr>status = 302, cacheControl = ''max-age=604800, immutable'',
                         location = canonicalUrl e (a\<lparr>lastAccessedAt := Some (now i)\<rparr>)\<rparr>))"
  unfolding redirect_accessible [OF assms]
  by (auto simp: Attachment_update_def isPrivate_def split: option.splits sum.splits)

text \<open>
  At the example: Alice reads the private attachment \<open>a1\<close> of her own team; no
  notification is emitted, the row gets the timestamp and she is redirected to the signed
  URL.
\<close>

theorem redirect_timestamp_write_witness:
  "Attachment_findByPk world0 (nullish (body_id req_a1) (query_id req_a1)) = Inr att1 \<and>
   \<not> (isPrivate att1 \<and> teamId att1 \<noteq> user_teamId alice) \<and>
   updateFault io0 = None \<and>
   events (snd (handleAttachmentsRedirect env0 io0 alice req_a1 world0)) = events world0 \<and>
   attachments (snd (handleAttachmentsRedirect env0 io0 alice req_a1 world0)) =
     [att1_read, att2] \<and>
   fst (handleAttachmentsRedirect env0 io0 alice req_a1 world0) =
     Inr \<lparr>status = 302, cacheControl = ''max-age=60, immutable'',
          location = ''https://s3.example/uploads/alice/a1/cat.png?sig''\<rparr>"
proof -
  have g: "\<not> (isPrivate att1 \<and> teamId att1 \<noteq> user_teamId alice)"
    by (simp add: fixtures)
  have s: "string_of_nat 60 = ''60''"
    by code_simp
  show ?thesis
    using found_a1 g redirect_timestamp_write [OF found_a1 g, where e = env0 and i = io0]
    by (simp add: isPrivate_def s fixtures)
qed

text \<open>
  C1 as stated fails: the same request, with the write of the timestamp rejected by the
  database, does not redirect; it fails with the error of the write.
\<close>

theorem redirect_write_failure_counterexample:
  "Attachment_findByPk world0 (nullish (body_id req_a1) (query_id req_a1)) = Inr att1 \<and>
   \<not> (isPrivate att1 \<and> teamId att1 \<noteq> user_teamId alice) \<and>
   updateFault io_writeFails = Some (InternalError ''database unavailable'') \<and>
   handleAttachmentsRedirect env0 io_writeFails alice req_a1 world0 =
     (Inl (InternalError ''database unavailable''), world0)"
  by (simp add: handleAttachmentsRedirect_def Attachment_findByPk_def nullish_def
        Attachment_update_def isPrivate_def fixtures)

subsection \<open>C2\<close>

text \<open>
  C2. When \<open>attachments.createFromUrl\<close> has persisted its record and scheduled the job, and
  the Remote-Fetch Job reports an error outcome with message \<open>m\<close>, the call fails with
  \<open>InvalidRequestError m\<close>, and the table afterwards is the table before the call with the
  new zero-byte record appended: nothing is deleted or rolled back.
\<close>

theorem createFromUrl_job_error:
  assumes "createFromUrl_persist e i user req w = Inr (att, w1)"
    and "scheduleFault i = None"
    and "jobOutcome i = JobError m"
  shows "fst (attachments_createFromUrl e i user req w) = Inl (InvalidRequestError m) \<and>
         attachments (snd (attachments_createFromUrl e i user req w)) =
           attachments w @ [att] \<and>
         size' att = 0 \<and> contentType att = ''application/octet-stream'' \<and>
         id' att = uuidv4 i"
  using persist_Inr [OF assms(1)] assms
  by (simp add: attachments_createFromUrl_def createFromUrl_await_def Task_schedule_def
        job_finished_def)

theorem createFromUrl_job_error_witness:
  "createFromUrl_persist env0 io_jobFails alice req_url world0 = Inr (att_new, world1) \<and>
   scheduleFault io_jobFails = None \<and>
   jobOutcome io_jobFails = JobError ''Response too large'' \<and>
   fst (attachments_createFromUrl env0 io_jobFails alice req_url world0) =
     Inl (InvalidRequestError ''Response too large'') \<and>
   attachments (snd (attachments_createFromUrl env0 io_jobFails alice req_url world0)) =
     [att1, att2, att_new]"
proof -
  have h2: "scheduleFault io_jobFails = None" by (simp add: fixtures)
  have h3: "jobOutcome io_jobFails = JobError ''Response too large''" by (simp add: fixtures)
  have w: "attachments world0 = [att1, att2]" by (simp add: world0_def)
  show ?thesis
    using h2 h3 createFromUrl_job_error [OF persist_example_jobFails h2 h3]
    by (simp add: persist_example_jobFails w)
qed

subsection \<open>C3\<close>

text \<open>
  C3, as amended. For every preset and every direct \<open>attachments.create\<close> request whose
  size is strictly greater than the maximum upload size of the preset, the operation
  fails and no record is persisted. The authorization step runs first: when the request
  passes it, the failure is the \<open>ValidationError\<close> whose message ends with the
  human-readable size limit; when it does not, the failure is the error of that step.
\<close>

theorem create_too_large:
  assumes "create_size req > presetToMaxUploadSize e (create_preset req)"
  shows "attachments_create e i user req w =
           (case create_authorize e user req of
              Inl err \<Rightarrow> (Inl err, w)
            | Inr _ \<Rightarrow>
                (Inl (ValidationError
                        (tooLargeMessage @
                           bytesToHumanReadable e
                             (presetToMaxUploadSize e (create_preset req)))),
                 w))"
  using assms
  by (auto simp: attachments_create_def transaction_def attachments_create_handler_def
        Let_def split: sum.splits)

theorem create_too_large_witness:
  "create_size req_big > presetToMaxUploadSize env0 (create_preset req_big) \<and>
   create_authorize env0 alice req_big = Inr () \<and>
   attachments_create env0 io0 alice req_big world0 =
     (Inl (ValidationError (tooLargeMessage @ ''1000 Bytes'')), world0)"
proof -
  have h: "create_size req_big > presetToMaxUploadSize env0 (create_preset req_big)"
    by (simp add: fixtures)
  have a: "create_authorize env0 alice req_big = Inr ()"
    by (simp add: create_authorize_def authorize_def truthy_def fixtures)
  have s: "string_of_nat 1000 = ''1000''"
    by code_simp
  have b: "bytesToHumanReadable env0 (presetToMaxUploadSize env0 (create_preset req_big)) =
             ''1000 Bytes''"
    by (simp add: fixtures s)
  show ?thesis
    using h a create_too_large [OF h, where i = io0 and user = alice and w = world0]
    by (simp add: b)
qed

text \<open>
  C3 as stated fails: Mallory, of another team, asks for a document attachment of 2000
  bytes on a document she may not update, where the limit is 1000 bytes. The operation
  fails with \<open>AuthorizationError\<close>, not with \<open>ValidationError\<close>.
\<close>

theorem create_too_large_counterexample:
  "create_size req_big > presetToMaxUploadSize env0 (create_preset req_big) \<and>
   attachments_create env0 io0 mallory req_big world0 = (Inl AuthorizationError, world0)"
  by (simp add: attachments_create_def transaction_def attachments_create_handler_def
        create_authorize_def authorize_def truthy_def fixtures)

subsection \<open>C4\<close>

text \<open>
  C4. An \<open>attachments.createFromUrl\<close> request whose preset is not \<open>DocumentAttachment\<close>, or
  whose \<open>documentId\<close> is absent (or the empty string), fails with \<open>ValidationError\<close> and
  leaves the state as it was: no record is persisted and no job is scheduled.
\<close>

theorem createFromUrl_invalid:
  assumes "fromUrl_preset req \<noteq> DocumentAttachment \<or> fromUrl_documentId req = None \<or>
           fromUrl_documentId req = Some []"
  shows "attachments_createFromUrl e i user req w =
           (Inl (ValidationError ''Only document attachments can be created from a URL''), w)"
  using assms
  by (auto simp: attachments_createFromUrl_def createFromUrl_persist_def truthy_def)

theorem createFromUrl_invalid_witness:
  "fromUrl_preset req_url_avatar \<noteq> DocumentAttachment \<and>
   attachments_createFromUrl env0 io0 alice req_url_avatar world0 =
     (Inl (ValidationError ''Only document attachments can be created from a URL''), world0)"
proof -
  have h: "fromUrl_preset req_url_avatar \<noteq> DocumentAttachment"
    by (simp add: fixtures)
  then have h': "fromUrl_preset req_url_avatar \<noteq> DocumentAttachment \<or>
                 fromUrl_documentId req_url_avatar = None \<or>
                 fromUrl_documentId req_url_avatar = Some []"
    by simp
  show ?thesis
    using h createFromUrl_invalid
            [OF h', where e = env0 and i = io0 and user = alice and w = world0]
    by simp
qed

subsection \<open>C5\<close>

text \<open>
  C5. Take an \<open>attachments.createFromUrl\<close> request that passes validation and
  authorization. If the transaction that writes the record does not commit, the call
  fails there and nothing is scheduled. If it commits, the committed record has size 0 and
  content type \<open>application/octet-stream\<close>, it is in the table and no job has been
  scheduled yet; the rest of the handler, which begins by scheduling the job for this
  record, runs from that state, and the row stays in the table whatever happens next.
  The transaction commits whenever the database accepts the write and the identifier is
  fresh.
\<close>

theorem createFromUrl_record_before_job:
  assumes "fromUrl_preset req = DocumentAttachment"
    and "truthy (fromUrl_documentId req)"
    and "can e user Update
           (DocumentTarget (findDocument e (the (fromUrl_documentId req)) (user_id user)))"
  shows "(case createFromUrl_persist e i user req w of
            Inl err \<Rightarrow> attachments_createFromUrl e i user req w = (Inl err, w)
          | Inr (att, w1) \<Rightarrow>
              size' att = 0 \<and> contentType att = ''application/octet-stream'' \<and>
              id' att = uuidv4 i \<and>
              attachments w1 = attachments w @ [att] \<and> jobs w1 = jobs w \<and>
              attachments_createFromUrl e i user req w =
                createFromUrl_await e i (fromUrl_url req) att w1 \<and>
              map id' (attachments (snd (attachments_createFromUrl e i user req w))) =
                map id' (attachments w) @ [uuidv4 i] \<and>
              (scheduleFault i = None \<longrightarrow>
                 jobs (snd (attachments_createFromUrl e i user req w)) =
                   jobs w @ [(id' att, fromUrl_url req)])) \<and>
         (createFault i = None \<and> uuidv4 i \<notin> set (map id' (attachments w)) \<longrightarrow>
            (\<exists>att w1. createFromUrl_persist e i user req w = Inr (att, w1)))"
proof (rule conjI)
  show "case createFromUrl_persist e i user req w of
            Inl err \<Rightarrow> attachments_createFromUrl e i user req w = (Inl err, w)
          | Inr (att, w1) \<Rightarrow>
              size' att = 0 \<and> contentType att = ''application/octet-stream'' \<and>
              id' att = uuidv4 i \<and>
              attachments w1 = attachments w @ [att] \<and> jobs w1 = jobs w \<and>
              attachments_createFromUrl e i user req w =
                createFromUrl_await e i (fromUrl_url req) att w1 \<and>
              map id' (attachments (snd (attachments_createFromUrl e i user req w))) =
                map id' (attachments w) @ [uuidv4 i] \<and>
              (scheduleFault i = None \<longrightarrow>
                 jobs (snd (attachments_createFromUrl e i user req w)) =
                   jobs w @ [(id' att, fromUrl_url req)])"
  proof (cases "createFromUrl_persist e i user req w")
    case (Inl err)
    then show ?thesis by (simp add: attachments_createFromUrl_def)
  next
    case (Inr p)
    obtain att w1 where p: "p = (att, w1)" by (cases p)
    have whole: "attachments_createFromUrl e i user req w =
                   createFromUrl_await e i (fromUrl_url req) att w1"
      by (simp add: attachments_createFromUrl_def Inr p)
    from persist_Inr [OF Inr [unfolded p]] await_jobs [of i e "fromUrl_url req" att w1]
      await_ids [of e i "fromUrl_url req" att w1]
    show ?thesis by (simp add: Inr p whole)
  qed
next
  show "createFault i = None \<and> uuidv4 i \<notin> set (map id' (attachments w)) \<longrightarrow>
          (\<exists>att w1. createFromUrl_persist e i user req w = Inr (att, w1))"
    using assms
    by (simp add: createFromUrl_persist_def authorize_def Let_def
          Attachment_createWithCtx_def)
qed

theorem createFromUrl_record_before_job_witness:
  "fromUrl_preset req_url = DocumentAttachment \<and> truthy (fromUrl_documentId req_url) \<and>
   can env0 alice Update
     (DocumentTarget (findDocument env0 (the (fromUrl_documentId req_url)) (user_id alice))) \<and>
   createFromUrl_persist env0 io0 alice req_url world0 = Inr (att_new, world1) \<and>
   size' att_new = 0 \<and> contentType att_new = ''application/octet-stream'' \<and>
   jobs world1 = [] \<and>
   jobs (snd (attachments_createFromUrl env0 io0 alice req_url world0)) =
     [(''new1'', ''http://x/y.png'')]"
proof -
  have h1: "fromUrl_preset req_url = DocumentAttachment" by (simp add: fixtures)
  have h2: "truthy (fromUrl_documentId req_url)" by (simp add: truthy_def fixtures)
  have h3: "can env0 alice Update
     (DocumentTarget (findDocument env0 (the (fromUrl_documentId req_url)) (user_id alice)))"
    by (simp add: fixtures)
  have sf: "scheduleFault io0 = None" by (simp add: fixtures)
  have w: "jobs world0 = []" "id' att_new = ''new1''"
    "fromUrl_url req_url = ''http://x/y.png''" "uuidv4 io0 = ''new1''"
    by (simp_all add: fixtures)
  show ?thesis
    using h1 h2 h3
      createFromUrl_record_before_job [OF h1 h2 h3, where i = io0 and w = world0]
    by (auto simp: persist_example sf w)
qed

subsection \<open>C6\<close>

text \<open>
  C6, as amended. On an \<open>attachments.redirect\<close> request for a private attachment: when
  the team of the attachment differs from the team of the caller, the operation fails
  with \<open>AuthorizationError\<close> and changes nothing. When the teams match, the handler first
  awaits the write of \<open>lastAccessedAt\<close>: if that write is rejected, the request fails with
  the error of the write and changes nothing; if it succeeds, the response is the
  redirect with status 302 to the signed URL, with \<open>Cache-Control\<close> exactly
  \<open>max-age=N, immutable\<close> where \<open>N\<close> is the decimal numeral of the configured lifetime of
  signed URLs (or, when the storage refuses to sign, the error of the signing).
\<close>

theorem redirect_private:
  assumes "Attachment_findByPk w (nullish (body_id req) (query_id req)) = Inr a"
    and "isPrivate a"
  shows "(teamId a \<noteq> user_teamId user \<longrightarrow>
            handleAttachmentsRedirect e i user req w = (Inl AuthorizationError, w)) \<and>
         (teamId a = user_teamId user \<longrightarrow>
            (\<forall>err. updateFault i = Some err \<longrightarrow>
               handleAttachmentsRedirect e i user req w = (Inl err, w)) \<and>
            (updateFault i = None \<longrightarrow>
               fst (handleAttachmentsRedirect e i user req w) =
                 (case signedUrl e (a\<lparr>lastAccessedAt := Some (now i)\<rparr>) of
                    Inl err \<Rightarrow> Inl err
                  | Inr u \<Rightarrow>
                      Inr \<lparr>status = 302,
                           cacheControl =
                             ''max-age='' @ string_of_nat (defaultSignedUrlExpires e)
                               @ '', immutable'',
                           location = u\<rparr>))) \<and>
         nat_of_digits (string_of_nat (defaultSignedUrlExpires e)) =
           Some (defaultSignedUrlExpires e)"
proof (intro conjI impI allI)
  assume "teamId a \<noteq> user_teamId user"
  with assms show "handleAttachmentsRedirect e i user req w = (Inl AuthorizationError, w)"
    by (simp add: handleAttachmentsRedirect_def)
next
  fix err
  assume "teamId a = user_teamId user" and "updateFault i = Some err"
  with assms show "handleAttachmentsRedirect e i user req w = (Inl err, w)"
    by (simp add: handleAttachmentsRedirect_def Attachment_update_def)
next
  assume "teamId a = user_teamId user" and "updateFault i = None"
  with assms
  show "fst (handleAttachmentsRedirect e i user req w) =
          (case signedUrl e (a\<lparr>lastAccessedAt := Some (now i)\<rparr>) of
             Inl err \<Rightarrow> Inl err
           | Inr u \<Rightarrow>
               Inr \<lparr>status = 302,
                    cacheControl =
                      ''max-age='' @ string_of_nat (defaultSignedUrlExpires e)
                        @ '', immutable'',
                    location = u\<rparr>)"
    by (simp add: handleAttachmentsRedirect_def Attachment_update_def isPrivate_def
          split: sum.splits)
next
  show "nat_of_digits (string_of_nat (defaultSignedUrlExpires e)) =
          Some (defaultSignedUrlExpires e)"
    by (rule nat_of_digits_string_of_nat)
qed

text \<open>
  At the example: Mallory, of another team, is refused \<open>a1\<close>; Alice is redirected to the
  signed URL with \<open>max-age=60\<close>.
\<close>

theorem redirect_private_witness:
  "Attachment_findByPk world0 (nullish (body_id req_a1) (query_id req_a1)) = Inr att1 \<and>
   isPrivate att1 \<and>
   teamId att1 \<noteq> user_teamId mallory \<and>
   handleAttachmentsRedirect env0 io0 mallory req_a1 world0 =
     (Inl AuthorizationError, world0) \<and>
   teamId att1 = user_teamId alice \<and> updateFault io0 = None \<and>
   fst (handleAttachmentsRedirect env0 io0 alice req_a1 world0) =
     Inr \<lparr>status = 302, cacheControl = ''max-age=60, immutable'',
          location = ''https://s3.example/uploads/alice/a1/cat.png?sig''\<rparr> \<and>
   nat_of_digits ''60'' = Some 60"
proof -
  have g: "isPrivate att1"
    by (simp add: isPrivate_def fixtures)
  have s: "string_of_nat 60 = ''60''"
    by code_simp
  have m: "handleAttachmentsRedirect env0 io0 mallory req_a1 world0 =
             (Inl AuthorizationError, world0)"
    using redirect_private [OF found_a1 g, where user = mallory and e = env0 and i = io0]
    by (simp add: fixtures)
  have a: "fst (handleAttachmentsRedirect env0 io0 alice req_a1 world0) =
     Inr \<lparr>status = 302, cacheControl = ''max-age=60, immutable'',
          location = ''https://s3.example/uploads/alice/a1/cat.png?sig''\<rparr> \<and>
     nat_of_digits ''60'' = Some 60"
    using redirect_private [OF found_a1 g, where user = alice and e = env0 and i = io0]
    by (simp add: s fixtures)
  have t: "teamId att1 \<noteq> user_teamId mallory \<and> teamId att1 = user_teamId alice \<and>
           updateFault io0 = None"
    by (simp add: fixtures)
  from found_a1 g m a t show ?thesis by blast
qed

text \<open>
  C6 as stated fails in its second half: Bob, of the team of the private attachment
  \<open>a1\<close>, asks for it while the database rejects the write of the timestamp; he gets the
  error of the write, not a redirect.
\<close>

theorem redirect_private_same_team_counterexample:
  "Attachment_findByPk world0 (nullish (body_id req_a1_query) (query_id req_a1_query)) =
     Inr att1 \<and>
   isPrivate att1 \<and> teamId att1 = user_teamId bob \<and>
   handleAttachmentsRedirect env0 io_writeFails bob req_a1_query world0 =
     (Inl (InternalError ''database unavailable''), world0)"
  by (simp add: handleAttachmentsRedirect_def Attachment_findByPk_def nullish_def
        Attachment_update_def isPrivate_def fixtures)

subsection \<open>C7\<close>

text \<open>
  C7. For a caller who is not an admin, \<open>attachments.list\<close> answers a request with a
  \<open>userId\<close> filter exactly as it answers the same request without one, and every row
  behind the returned data is a row of the table that belongs to the caller and to the
  team of the caller.
\<close>

theorem list_non_admin:
  assumes "\<not> user_isAdmin user"
  shows "attachments_list e user pg req w =
           attachments_list e user pg (req\<lparr>list_userId := None\<rparr>) w \<and>
         (\<forall>resp. attachments_list e user pg req w = Inr resp \<longrightarrow>
            (\<exists>rows. attachments_list_rows e user pg req w = Inr rows \<and>
               list_data resp = map (presentAttachment e) rows \<and>
               (\<forall>a \<in> set rows. userId a = user_id user \<and> teamId a = user_teamId user \<and>
                  a \<in> set (attachments w))))"
proof (intro conjI allI impI)
  show "attachments_list e user pg req w =
          attachments_list e user pg (req\<lparr>list_userId := None\<rparr>) w"
    using list_where_ignores_userId [OF assms, of e req]
    by (simp add: attachments_list_def)
next
  fix resp
  assume ok: "attachments_list e user pg req w = Inr resp"
  then obtain wh where wh: "list_where e user req = Inr wh"
    by (auto simp: attachments_list_def split: sum.splits)
  let ?rows = "Attachment_findAll w wh (offset pg) (limit pg)"
  have rows: "attachments_list_rows e user pg req w = Inr ?rows"
    by (simp add: attachments_list_rows_def wh)
  have data: "list_data resp = map (presentAttachment e) ?rows"
    using ok by (auto simp: attachments_list_def wh Let_def)
  have own: "\<forall>a \<in> set ?rows. userId a = user_id user \<and> teamId a = user_teamId user \<and>
                a \<in> set (attachments w)"
    using list_where_non_admin [OF assms wh]
      findAll_matches [of _ w wh "offset pg" "limit pg"]
    by (auto simp: matches_def)
  from rows data own
  show "\<exists>rows. attachments_list_rows e user pg req w = Inr rows \<and>
               list_data resp = map (presentAttachment e) rows \<and>
               (\<forall>a \<in> set rows. userId a = user_id user \<and> teamId a = user_teamId user \<and>
                  a \<in> set (attachments w))"
    by blast
qed

text \<open>
  At the example: Bob asks for the attachments of Alice, who is in his team; he gets his
  own.
\<close>

theorem list_non_admin_witness:
  "\<not> user_isAdmin bob \<and>
   attachments_list env0 bob page0 req_list world0 =
     attachments_list env0 bob page0 (req_list\<lparr>list_userId := None\<rparr>) world0 \<and>
   attachments_list_rows env0 bob page0 req_list world0 = Inr [att2]"
proof -
  have n: "\<not> user_isAdmin bob" by (simp add: fixtures)
  have r: "attachments_list_rows env0 bob page0 req_list world0 = Inr [att2]"
    by (simp add: attachments_list_rows_def list_where_def truthy_def Attachment_findAll_def
          matches_def fixtures)
  show ?thesis
    using n r
      list_non_admin [OF n, where e = env0 and pg = page0 and req = req_list and w = world0]
    by simp
qed

subsection \<open>C8\<close>

text \<open>
  C8. When a direct \<open>attachments.create\<close> with preset \<open>DocumentAttachment\<close> succeeds, the
  handler has appended one record to the table, and the \<open>url\<close> field of the attachment in
  the response is the \<open>redirectUrl\<close> of that record: the response is the presented record
  with \<open>url\<close> replaced by it.
\<close>

theorem create_document_attachment_url:
  assumes "create_preset req = DocumentAttachment"
    and "attachments_create e i user req w = (Inr resp, w')"
  shows "\<exists>att. attachments w' = attachments w @ [att] \<and> id' att = uuidv4 i \<and>
           attachment resp ''url'' = Some (JStr (redirectUrl e att)) \<and>
           attachment resp = (presentAttachment e att)(''url'' \<mapsto> JStr (redirectUrl e att))"
  using create_handler_Inr [OF create_Inr [OF assms(2)]] assms(1) by auto

lemma create_example:
  "attachments_create env0 io0 alice req_doc world0 = (Inr resp_doc, world_doc)"
  by (simp add: attachments_create_def transaction_def attachments_create_handler_def
        create_authorize_def authorize_def truthy_def Let_def Attachment_createWithCtx_def
        fixtures)

theorem create_document_attachment_url_witness:
  "create_preset req_doc = DocumentAttachment \<and>
   attachments_create env0 io0 alice req_doc world0 = (Inr resp_doc, world_doc) \<and>
   attachment resp_doc ''url'' = Some (JStr ''/api/attachments.redirect?id=new1'') \<and>
   presentAttachment env0 att_doc ''url'' = Some (JStr ''/raw/uploads/alice/new1/x.png'')"
proof -
  have h: "create_preset req_doc = DocumentAttachment" by (simp add: fixtures)
  have w: "attachments world_doc = attachments world0 @ [att_doc]" by (simp add: fixtures)
  have r: "redirectUrl env0 att_doc = ''/api/attachments.redirect?id=new1''"
    by (simp add: fixtures)
  have p: "presentAttachment env0 att_doc ''url'' =
             Some (JStr ''/raw/uploads/alice/new1/x.png'')"
    by (simp add: fixtures)
  from create_document_attachment_url [OF h create_example] w
  have "attachment resp_doc ''url'' = Some (JStr (redirectUrl env0 att_doc))"
    by auto
  with h create_example r p show ?thesis by simp
qed

subsection \<open>C9\<close>

text \<open>
  C9. Once \<open>uploadFile\<close> has its upload credential, the outcome is decided by the status
  of the transfer when it ends (the first \<open>loadend\<close>, at which the request is in state 4,
  done): the call returns the attachment exactly when the status is at least 200 and
  below 400, and otherwise throws the one error \<open>Upload failed\<close>. A transport error ends
  with status 0 and so throws.
\<close>

theorem uploadFile_status:
  assumes "\<forall>ev \<in> set pre. \<forall>r s. ev \<noteq> XhrLoadEnd r s"
  shows "uploadFile (Inr (Some data)) (pre @ XhrLoadEnd 4 st # post) =
           Some (if 200 \<le> st \<and> st < 400 then Inr (attachment data)
                 else Inl (JsError ''Upload failed''))"
  using upload_promise_first_loadend [OF assms, of 4 st post]
  by (simp add: uploadFile_def)

theorem uploadFile_status_witness:
  "uploadFile (Inr (Some data0)) ([UploadProgress True 5 10, XhrLoad] @ XhrLoadEnd 4 204 # []) =
     Some (Inr (attachment data0)) \<and>
   uploadFile (Inr (Some data0)) ([XhrError] @ XhrLoadEnd 4 0 # []) =
     Some (Inl (JsError ''Upload failed'')) \<and>
   uploadFile (Inr (Some data0)) ([XhrLoad] @ XhrLoadEnd 4 403 # []) =
     Some (Inl (JsError ''Upload failed''))"
proof -
  have h1: "\<forall>ev \<in> set [UploadProgress True 5 10, XhrLoad]. \<forall>r s. ev \<noteq> XhrLoadEnd r s"
    by simp
  have h2: "\<forall>ev \<in> set [XhrError]. \<forall>r s. ev \<noteq> XhrLoadEnd r s"
    by simp
  have h3: "\<forall>ev \<in> set [XhrLoad]. \<forall>r s. ev \<noteq> XhrLoadEnd r s"
    by simp
  show ?thesis
    using uploadFile_status [OF h1, where data = data0 and st = 204 and post = "[]"]
      uploadFile_status [OF h2, where data = data0 and st = 0 and post = "[]"]
      uploadFile_status [OF h3, where data = data0 and st = 403 and post = "[]"]
    by simp
qed

subsection \<open>C10\<close>

text \<open>
  C10. A direct \<open>attachments.create\<close> request with preset \<open>DocumentAttachment\<close> and no
  \<open>documentId\<close> (absent or empty) is authorized by the team-level \<open>createAttachment\<close>
  check alone: without that permission it fails with \<open>AuthorizationError\<close>; with it, and
  a size within the limit, the request succeeds and the record is persisted (when the
  database and the storage accept it), whatever the policy says about documents.
\<close>

theorem create_document_attachment_without_document:
  assumes "create_preset req = DocumentAttachment"
    and "\<not> truthy (create_documentId req)"
  shows "create_authorize e user req =
           authorize e user CreateAttachment (TeamTarget (user_teamId user)) \<and>
         (\<not> can e user CreateAttachment (TeamTarget (user_teamId user)) \<longrightarrow>
            attachments_create e i user req w = (Inl AuthorizationError, w)) \<and>
         (can e user CreateAttachment (TeamTarget (user_teamId user)) \<and>
          create_size req \<le> presetToMaxUploadSize e DocumentAttachment \<and>
          createFault i = None \<and> uuidv4 i \<notin> set (map id' (attachments w)) \<and>
          getPresignedPost e
            (getKey e (presetToAcl e DocumentAttachment) (uuidv4 i) (create_name req)
               (user_id user))
            (presetToAcl e DocumentAttachment) (presetToMaxUploadSize e DocumentAttachment)
            (create_contentType req) = Inr postFields \<longrightarrow>
            (\<exists>resp w'. attachments_create e i user req w = (Inr resp, w') \<and>
               (\<exists>att. attachments w' = attachments w @ [att] \<and> id' att = uuidv4 i \<and>
                  documentId att = create_documentId req)))"
  using assms
  by (auto simp: create_authorize_def authorize_def attachments_create_def transaction_def
        attachments_create_handler_def Let_def Attachment_createWithCtx_def)

text \<open>
  At the example, the policy allows no action on any document, and Alice's request
  without a document is accepted.
\<close>

theorem create_document_attachment_without_document_witness:
  "create_preset req_nodoc = DocumentAttachment \<and>
   \<not> truthy (create_documentId req_nodoc) \<and>
   create_authorize env_teamOnly alice req_nodoc = Inr () \<and>
   attachments (snd (attachments_create env_teamOnly io0 alice req_nodoc world0)) =
     [att1, att2, att_nodoc]"
proof -
  have h1: "create_preset req_nodoc = DocumentAttachment" by (simp add: fixtures)
  have h2: "\<not> truthy (create_documentId req_nodoc)" by (simp add: truthy_def fixtures)
  have c: "authorize env_teamOnly alice CreateAttachment (TeamTarget (user_teamId alice)) =
             Inr ()"
    by (simp add: authorize_def fixtures)
  have r: "attachments (snd (attachments_create env_teamOnly io0 alice req_nodoc world0)) =
             [att1, att2, att_nodoc]"
    by (simp add: attachments_create_def transaction_def attachments_create_handler_def
          create_authorize_def authorize_def truthy_def Let_def Attachment_createWithCtx_def
          fixtures)
  show ?thesis
    using h1 h2 r
      create_document_attachment_without_document
        [OF h1 h2, where e = env_teamOnly and user = alice]
    by (simp add: c)
qed

end
